theory Spec2Isabelle
  imports Complex_Main "HOL-Library.Word"
begin

section \<open>Settings (app/config.py)\<close>

text \<open>
  The fields of \<open>Settings\<close> that the session store, the audio cache and the routes read.
  All of them come from the environment; the integers are Python's unbounded \<open>int\<close>.
\<close>

record settings =
  max_conversation_length :: int
  session_timeout_seconds :: int
  max_audio_file_size_mb :: int
  openai_tts_voice :: string

definition max_audio_file_size_bytes :: "settings \<Rightarrow> int" where
  "max_audio_file_size_bytes cfg = max_audio_file_size_mb cfg * 1024 * 1024"

definition default_settings :: settings where
  "default_settings =
     \<lparr>max_conversation_length = 20, session_timeout_seconds = 3600,
      max_audio_file_size_mb = 25, openai_tts_voice = ''alloy''\<rparr>"

section \<open>Python values\<close>

text \<open>
  Exceptions are values. \<open>HTTPException\<close> carries the status code and the detail text;
  \<open>OpenAIError\<close> stands for every failure of a provider call (timeout, authentication,
  rate limit, malformed answer) and carries the name of its class and its text. The
  others carry their text.
\<close>

datatype exn =
    TypeError string
  | IndexError
  | AttributeError string
  | OverflowError string
  | KeyError string
  | ValueError string
  | OpenAIError string string
  | HTTPException nat string

text \<open>The decimal digits of a natural number and \<open>str\<close> of an integer.\<close>

fun digits :: "nat \<Rightarrow> string" where
  "digits n =
     (if n < 10 then [''0123456789'' ! n] else digits (n div 10) @ [''0123456789'' ! (n mod 10)])"

declare digits.simps [simp del]

definition str_int :: "int \<Rightarrow> string" where
  "str_int i = (if i < 0 then ''-'' @ digits (nat (- i)) else digits (nat i))"

text \<open>The apostrophe, for the texts of Python's own exceptions.\<close>

definition quote :: string where
  "quote = [CHR 0x27]"

text \<open>\<open>str(e)\<close> and \<open>type(e).__name__\<close>.\<close>

fun exn_str :: "exn \<Rightarrow> string" where
  "exn_str (TypeError m) = m"
| "exn_str IndexError = ''list index out of range''"
| "exn_str (AttributeError m) = m"
| "exn_str (OverflowError m) = m"
| "exn_str (KeyError m) = m"
| "exn_str (ValueError m) = m"
| "exn_str (OpenAIError cls m) = m"
| "exn_str (HTTPException c d) = digits c @ '': '' @ d"

fun exn_name :: "exn \<Rightarrow> string" where
  "exn_name (TypeError m) = ''TypeError''"
| "exn_name IndexError = ''IndexError''"
| "exn_name (AttributeError m) = ''AttributeError''"
| "exn_name (OverflowError m) = ''OverflowError''"
| "exn_name (KeyError m) = ''KeyError''"
| "exn_name (ValueError m) = ''ValueError''"
| "exn_name (OpenAIError cls m) = cls"
| "exn_name (HTTPException c d) = ''HTTPException''"

type_synonym bytes = "8 word list"

text \<open>
  A \<open>datetime\<close> is a count of microseconds. \<open>timedelta(seconds=n)\<close> for an integer
  \<open>n\<close> is \<open>n * 10^6\<close> of them, unless its days, \<open>n div 86400\<close>, exceed 999999999 in
  magnitude: then the constructor raises \<open>OverflowError\<close>, with one text when the days
  fit a C \<open>int\<close> and another when they do not. A difference of two datetimes is always
  in range.
\<close>

type_synonym datetime = int

definition timedelta_seconds :: "int \<Rightarrow> exn + int" where
  "timedelta_seconds n =
     (let days = n div 86400
      in if days < - 2147483648 \<or> 2147483647 < days then
           Inl (OverflowError ''Python int too large to convert to C int'')
         else if \<bar>days\<bar> > 999999999 then
           Inl (OverflowError (''days='' @ str_int days @ ''; must have magnitude <= 999999999''))
         else Inr (n * 1000000))"

text \<open>Python's \<open>xs[i:]\<close>: a negative start counts from the end, and both ends are clamped.\<close>

definition slice_from :: "'a list \<Rightarrow> int \<Rightarrow> 'a list" where
  "slice_from xs i =
     (let n = int (length xs)
      in if i < 0 then drop (nat (max 0 (n + i))) xs else drop (nat (min i n)) xs)"

text \<open>Python's \<open>xs[0]\<close>, which raises on the empty list.\<close>

definition index0 :: "'a list \<Rightarrow> exn + 'a" where
  "index0 xs = (case xs of [] \<Rightarrow> Inl IndexError | x # _ \<Rightarrow> Inr x)"

section \<open>Logging (app/utils/logger.py)\<close>

text \<open>
  \<open>log_error(error, context)\<close> calls \<open>app_logger.exception\<close> with the message
  \<open>Error occurred: \<close> followed by \<open>str(error)\<close> and with the keyword \<open>extra\<close>, the context
  joined to the error's type and text. With a keyword present the logger formats the message
  with \<open>str.format\<close> before it logs, and \<open>str.format\<close> raises on a replacement field that
  it cannot fill. A message without a brace has no such field and is logged as it is. For a
  message with a brace the outcome of \<open>str.format\<close> is the parameter \<open>fmt\<close>: from the
  message and the dictionary passed as \<open>extra\<close> to the exception raised, if any. The other
  calls of the logger pass no keyword or a constant message, and cannot raise.
\<close>

datatype pyval = PyStr string | PyInt int | PyNone

type_synonym formatter = "string \<Rightarrow> (string \<rightharpoonup> pyval) \<Rightarrow> exn option"

definition brace_free :: "string \<Rightarrow> bool" where
  "brace_free m = (CHR 0x7B \<notin> set m \<and> CHR 0x7D \<notin> set m)"

definition log_error :: "formatter \<Rightarrow> exn \<Rightarrow> (string \<rightharpoonup> pyval) \<Rightarrow> exn option" where
  "log_error fmt e context =
     (let error_context =
            [''error_type'' \<mapsto> PyStr (exn_name e), ''error_message'' \<mapsto> PyStr (exn_str e)]
              ++ context;
          message = ''Error occurred: '' @ exn_str e
      in if brace_free message then None else fmt message error_context)"

text \<open>
  The two handlers that follow a \<open>log_error\<close>: \<open>raise\<close>, which raises the exception
  again, and \<open>raise HTTPException(500, detail=prefix + str(e))\<close>. Neither is reached when
  the logging raises.
\<close>

definition log_and_reraise :: "formatter \<Rightarrow> (string \<rightharpoonup> pyval) \<Rightarrow> exn \<Rightarrow> exn" where
  "log_and_reraise fmt context e =
     (case log_error fmt e context of None \<Rightarrow> e | Some e' \<Rightarrow> e')"

definition log_and_raise_500 ::
  "formatter \<Rightarrow> (string \<rightharpoonup> pyval) \<Rightarrow> string \<Rightarrow> exn \<Rightarrow> exn" where
  "log_and_raise_500 fmt context prefix e =
     (case log_error fmt e context of
        None \<Rightarrow> HTTPException 500 (prefix @ exn_str e)
      | Some e' \<Rightarrow> e')"

section \<open>The session store (app/services/conversation_manager.py)\<close>

record message =
  role :: string
  content :: string

record session =
  messages :: "message list"
  created_at :: datetime
  last_activity :: datetime
  message_count :: int

type_synonym registry = "string \<rightharpoonup> session"

text \<open>
  \<open>_create_session_data\<close> reads the clock twice; \<open>prompt\<close> is the text that
  \<open>get_system_prompt()\<close> returns.
\<close>

definition create_session_data :: "string \<Rightarrow> datetime \<Rightarrow> datetime \<Rightarrow> session" where
  "create_session_data prompt t1 t2 =
     \<lparr>messages = [\<lparr>role = ''system'', content = prompt\<rparr>],
      created_at = t1, last_activity = t2, message_count = 0\<rparr>"

text \<open>\<open>session_id\<close> is the string of the fresh \<open>uuid4()\<close>.\<close>

definition create_session ::
  "string \<Rightarrow> string \<Rightarrow> datetime \<Rightarrow> datetime \<Rightarrow> registry \<Rightarrow> string \<times> registry" where
  "create_session prompt session_id t1 t2 sessions =
     (session_id, sessions(session_id \<mapsto> create_session_data prompt t1 t2))"

definition is_session_expired :: "settings \<Rightarrow> datetime \<Rightarrow> session \<Rightarrow> exn + bool" where
  "is_session_expired cfg now s =
     (case timedelta_seconds (session_timeout_seconds cfg) of
        Inl e \<Rightarrow> Inl e
      | Inr timeout \<Rightarrow> Inr (now - last_activity s > timeout))"

definition get_session ::
  "settings \<Rightarrow> datetime \<Rightarrow> string \<Rightarrow> registry \<Rightarrow> (exn + session option) \<times> registry" where
  "get_session cfg now session_id sessions =
     (case sessions session_id of
        None \<Rightarrow> (Inr None, sessions)
      | Some s \<Rightarrow>
          (case is_session_expired cfg now s of
             Inl e \<Rightarrow> (Inl e, sessions)
           | Inr expired \<Rightarrow>
               if expired then (Inr None, sessions(session_id := None))
               else (Inr (Some s), sessions)))"

text \<open>
  \<open>_trim_conversation_history\<close>. The slice is \<open>messages[-(max_length):]\<close>, and
  \<open>messages[0]\<close> raises on an empty list.
\<close>

definition trim_conversation_history ::
  "settings \<Rightarrow> string \<Rightarrow> registry \<Rightarrow> exn + registry" where
  "trim_conversation_history cfg session_id sessions =
     (case sessions session_id of
        None \<Rightarrow> Inr sessions
      | Some s \<Rightarrow>
          let msgs = messages s; max_length = max_conversation_length cfg
          in if int (length msgs) > max_length + 1 then
               (case index0 msgs of
                  Inl e \<Rightarrow> Inl e
                | Inr system_message \<Rightarrow>
                    Inr (sessions(session_id \<mapsto>
                      s\<lparr>messages := [system_message] @ slice_from msgs (- max_length)\<rparr>)))
             else Inr sessions)"

text \<open>
  \<open>add_message\<close>: \<open>now\<close> is the clock read of the expiry check inside \<open>get_session\<close>,
  \<open>now'\<close> the one stored as \<open>last_activity\<close>. The session object that \<open>get_session\<close>
  returned is the registry's entry, so its mutation is an update of that entry. An
  exception of \<open>get_session\<close> leaves the registry as it is, one of the trim leaves the
  append in place.
\<close>

definition add_message ::
  "settings \<Rightarrow> datetime \<Rightarrow> datetime \<Rightarrow> string \<Rightarrow> string \<Rightarrow> string \<Rightarrow> registry
     \<Rightarrow> (exn + bool) \<times> registry" where
  "add_message cfg now now' session_id r c sessions =
     (case get_session cfg now session_id sessions of
        (Inl e, sessions1) \<Rightarrow> (Inl e, sessions1)
      | (Inr None, sessions1) \<Rightarrow> (Inr False, sessions1)
      | (Inr (Some s), sessions1) \<Rightarrow>
          let s' = s\<lparr>messages := messages s @ [\<lparr>role = r, content = c\<rparr>],
                     last_activity := now',
                     message_count := message_count s + 1\<rparr>;
              sessions2 = sessions1(session_id \<mapsto> s')
          in (case trim_conversation_history cfg session_id sessions2 of
                Inl e \<Rightarrow> (Inl e, sessions2)
              | Inr sessions3 \<Rightarrow> (Inr True, sessions3)))"

definition get_messages ::
  "settings \<Rightarrow> datetime \<Rightarrow> string \<Rightarrow> registry
     \<Rightarrow> (exn + message list option) \<times> registry" where
  "get_messages cfg now session_id sessions =
     (case get_session cfg now session_id sessions of
        (Inl e, sessions1) \<Rightarrow> (Inl e, sessions1)
      | (Inr None, sessions1) \<Rightarrow> (Inr None, sessions1)
      | (Inr (Some s), sessions1) \<Rightarrow> (Inr (Some (messages s)), sessions1))"

definition delete_session :: "string \<Rightarrow> registry \<Rightarrow> bool \<times> registry" where
  "delete_session session_id sessions =
     (if sessions session_id \<noteq> None then (True, sessions(session_id := None))
      else (False, sessions))"

text \<open>
  One pass of the loop of \<open>_cleanup_expired_sessions\<close> (between two sleeps): every
  session is tested with its own clock read, \<open>now session_id\<close>, and the expired ones are
  deleted. An exception of the test is raised for the first session, before anything is
  deleted, and the loop's handler swallows it: every session stays.
\<close>

definition cleanup_expired_sessions ::
  "settings \<Rightarrow> (string \<Rightarrow> datetime) \<Rightarrow> registry \<Rightarrow> registry" where
  "cleanup_expired_sessions cfg now sessions =
     (\<lambda>session_id.
        case sessions session_id of
          None \<Rightarrow> None
        | Some s \<Rightarrow>
            (case is_session_expired cfg (now session_id) s of
               Inl e \<Rightarrow> Some s
             | Inr expired \<Rightarrow> if expired then None else Some s))"

subsection \<open>Operations on the registry\<close>

text \<open>
  The operations of the store as data, so that a history of the registry is a list of
  them. \<open>apply_op\<close> keeps the registry an operation leaves behind; an exception leaves
  what was written before it.
\<close>

datatype store_op =
    Create string datetime datetime
  | Get string datetime
  | GetMessages string datetime
  | Append string string string datetime datetime
  | Trim string
  | Delete string
  | Sweep "string \<Rightarrow> datetime"

fun apply_op :: "settings \<Rightarrow> string \<Rightarrow> store_op \<Rightarrow> registry \<Rightarrow> registry" where
  "apply_op cfg prompt (Create session_id t1 t2) sessions =
     snd (create_session prompt session_id t1 t2 sessions)"
| "apply_op cfg prompt (Get session_id now) sessions =
     snd (get_session cfg now session_id sessions)"
| "apply_op cfg prompt (GetMessages session_id now) sessions =
     snd (get_messages cfg now session_id sessions)"
| "apply_op cfg prompt (Append session_id r c now now') sessions =
     snd (add_message cfg now now' session_id r c sessions)"
| "apply_op cfg prompt (Trim session_id) sessions =
     (case trim_conversation_history cfg session_id sessions of
        Inl e \<Rightarrow> sessions
      | Inr sessions' \<Rightarrow> sessions')"
| "apply_op cfg prompt (Delete session_id) sessions =
     snd (delete_session session_id sessions)"
| "apply_op cfg prompt (Sweep now) sessions =
     cleanup_expired_sessions cfg now sessions"

definition run_ops :: "settings \<Rightarrow> string \<Rightarrow> store_op list \<Rightarrow> registry \<Rightarrow> registry" where
  "run_ops cfg prompt ops sessions = foldl (\<lambda>reg op. apply_op cfg prompt op reg) sessions ops"

text \<open>
  The invariant of a session: its message list is not empty and starts with a message of
  role \<open>system\<close>. A registry is in order when every session in it is.
\<close>

definition session_ok :: "session \<Rightarrow> bool" where
  "session_ok s = (case messages s of [] \<Rightarrow> False | m # _ \<Rightarrow> role m = ''system'')"

definition registry_ok :: "registry \<Rightarrow> bool" where
  "registry_ok sessions = (\<forall>session_id s. sessions session_id = Some s \<longrightarrow> session_ok s)"

text \<open>
  Appends in a row to one session, each with its two clock reads. The result is \<open>None\<close>
  as soon as one \<open>add_message\<close> returns false or raises. \<open>last_n n xs\<close> is the list of
  the last \<open>n\<close> elements of \<open>xs\<close>.
\<close>

fun add_messages ::
  "settings \<Rightarrow> string \<Rightarrow> (datetime \<times> datetime \<times> string \<times> string) list \<Rightarrow> registry
     \<Rightarrow> registry option" where
  "add_messages cfg session_id [] sessions = Some sessions"
| "add_messages cfg session_id ((now, now', r, c) # rest) sessions =
     (case add_message cfg now now' session_id r c sessions of
        (Inr True, sessions') \<Rightarrow> add_messages cfg session_id rest sessions'
      | _ \<Rightarrow> None)"

definition last_n :: "nat \<Rightarrow> 'a list \<Rightarrow> 'a list" where
  "last_n n xs = drop (length xs - n) xs"

section \<open>The state of a request\<close>

text \<open>
  What a request handler can change: the manager's registry, the files of the
  \<open>temp_audio\<close> directory (path to content), and the calls made to the provider, in
  order. The provider itself (the OpenAI client) is a parameter: three functions that
  return the answer or the exception of a call. Failures of the file system are not modelled.
\<close>

datatype provider_call =
    ChatCompletionCall "message list"
  | TranscriptionCall bytes string
  | SpeechCall string string rat

record world =
  manager_sessions :: registry
  temp_audio :: "string \<rightharpoonup> bytes"
  provider_calls :: "provider_call list"

record completion =
  completion_content :: string
  completion_tokens_used :: int

record providers =
  chat_completions_create :: "message list \<Rightarrow> exn + completion"
  audio_transcriptions_create :: "bytes \<Rightarrow> string \<Rightarrow> exn + string"
  audio_speech_create :: "string \<Rightarrow> string \<Rightarrow> rat \<Rightarrow> exn + bytes"

section \<open>The gateway (app/services/openai_service.py)\<close>

text \<open>
  \<open>truthy_or v d\<close> is Python's \<open>v or d\<close> on an optional string. \<open>chat_completion\<close>
  formats \<open>len(messages)\<close> before the call, which raises on \<open>None\<close>. Every exception
  of the three functions is passed to \<open>log_error\<close> and raised again.
\<close>

definition truthy_or :: "string option \<Rightarrow> string \<Rightarrow> string" where
  "truthy_or v d = (case v of None \<Rightarrow> d | Some x \<Rightarrow> if x = [] then d else x)"

definition openai_context :: "string \<Rightarrow> (string \<rightharpoonup> pyval)" where
  "openai_context operation =
     [''service'' \<mapsto> PyStr ''openai'', ''operation'' \<mapsto> PyStr operation]"

definition chat_completion ::
  "formatter \<Rightarrow> providers \<Rightarrow> message list option \<Rightarrow> world \<Rightarrow> (exn + completion) \<times> world" where
  "chat_completion fmt prov msgs w =
     (case msgs of
        None \<Rightarrow>
          (Inl (log_and_reraise fmt (openai_context ''chat_completion'')
                  (TypeError (''object of type '' @ quote @ ''NoneType'' @ quote
                                @ '' has no len()''))), w)
      | Some ms \<Rightarrow>
          (case chat_completions_create prov ms of
             Inl e \<Rightarrow> Inl (log_and_reraise fmt (openai_context ''chat_completion'') e)
           | Inr response \<Rightarrow> Inr response,
           w\<lparr>provider_calls := provider_calls w @ [ChatCompletionCall ms]\<rparr>))"

definition transcribe_audio ::
  "formatter \<Rightarrow> providers \<Rightarrow> bytes \<Rightarrow> string \<Rightarrow> world \<Rightarrow> (exn + string) \<times> world" where
  "transcribe_audio fmt prov audio_file fname w =
     (case audio_transcriptions_create prov audio_file fname of
        Inl e \<Rightarrow> Inl (log_and_reraise fmt (openai_context ''transcribe_audio'') e)
      | Inr transcribed_text \<Rightarrow> Inr transcribed_text,
      w\<lparr>provider_calls := provider_calls w @ [TranscriptionCall audio_file fname]\<rparr>)"

definition text_to_speech ::
  "settings \<Rightarrow> formatter \<Rightarrow> providers \<Rightarrow> string \<Rightarrow> string option \<Rightarrow> rat \<Rightarrow> world
     \<Rightarrow> (exn + bytes) \<times> world" where
  "text_to_speech cfg fmt prov text voice speed w =
     (let v = truthy_or voice (openai_tts_voice cfg)
      in (case audio_speech_create prov v text speed of
            Inl e \<Rightarrow> Inl (log_and_reraise fmt (openai_context ''text_to_speech'') e)
          | Inr audio_content \<Rightarrow> Inr audio_content,
          w\<lparr>provider_calls := provider_calls w @ [SpeechCall v text speed]\<rparr>))"

section \<open>The audio cache (app/services/tts_service.py)\<close>

text \<open>
  \<open>md5\<close> stands for \<open>hashlib.md5(content.encode()).hexdigest()\<close>, a function of the
  library.
\<close>

definition generate_audio_id :: "(string \<Rightarrow> string) \<Rightarrow> string \<Rightarrow> string \<Rightarrow> string" where
  "generate_audio_id md5 text voice = md5 (text @ '':'' @ voice)"

definition get_audio_path :: "string \<Rightarrow> string" where
  "get_audio_path audio_id = ''temp_audio/'' @ audio_id @ ''.mp3''"

text \<open>
  \<open>generate_speech(text, voice=None, use_cache=True)\<close>. The gateway is called without
  a speed, so with its default 1.25, and the file is written after every synthesis. The
  handler around the body logs an exception of the gateway a second time, with the
  context of this service, and raises it again.
\<close>

definition generate_speech ::
  "settings \<Rightarrow> formatter \<Rightarrow> providers \<Rightarrow> (string \<Rightarrow> string) \<Rightarrow> string \<Rightarrow> string option \<Rightarrow> bool
     \<Rightarrow> world \<Rightarrow> (exn + string \<times> bytes) \<times> world" where
  "generate_speech cfg fmt prov md5 text voice use_cache w =
     (let voice' = truthy_or voice (openai_tts_voice cfg);
          audio_id = generate_audio_id md5 text voice';
          audio_path = get_audio_path audio_id
      in case (if use_cache then temp_audio w audio_path else None) of
           Some audio_bytes \<Rightarrow> (Inr (audio_id, audio_bytes), w)
         | None \<Rightarrow>
             (case text_to_speech cfg fmt prov text (Some voice') (5 / 4) w of
                (Inl e, w') \<Rightarrow>
                  (Inl (log_and_reraise fmt
                          [''service'' \<mapsto> PyStr ''tts'',
                           ''text_length'' \<mapsto> PyInt (int (length text))] e), w')
              | (Inr audio_bytes, w') \<Rightarrow>
                  (Inr (audio_id, audio_bytes),
                   w'\<lparr>temp_audio := (temp_audio w')(audio_path \<mapsto> audio_bytes)\<rparr>)))"

text \<open>
  A call of \<open>generate_speech\<close> with keyword arguments: \<open>others\<close> are the names of the
  keywords that are not parameters of the function. Python raises \<open>TypeError\<close> for the
  first of them before the body runs, so outside the body's handler.
\<close>

definition generate_speech_kw ::
  "settings \<Rightarrow> formatter \<Rightarrow> providers \<Rightarrow> (string \<Rightarrow> string) \<Rightarrow> string \<Rightarrow> string option \<Rightarrow> bool
     \<Rightarrow> string list \<Rightarrow> world \<Rightarrow> (exn + string \<times> bytes) \<times> world" where
  "generate_speech_kw cfg fmt prov md5 text voice use_cache others w =
     (case others of
        [] \<Rightarrow> generate_speech cfg fmt prov md5 text voice use_cache w
      | k # _ \<Rightarrow>
          (Inl (TypeError (''TTSService.generate_speech() got an unexpected keyword argument ''
                            @ quote @ k @ quote)), w))"

definition get_audio :: "string \<Rightarrow> world \<Rightarrow> bytes option" where
  "get_audio audio_id w = temp_audio w (get_audio_path audio_id)"

definition delete_audio :: "string \<Rightarrow> world \<Rightarrow> bool \<times> world" where
  "delete_audio audio_id w =
     (if temp_audio w (get_audio_path audio_id) \<noteq> None
      then (True, w\<lparr>temp_audio := (temp_audio w)(get_audio_path audio_id := None)\<rparr>)
      else (False, w))"

section \<open>Routes (app/routes/chat.py, app/routes/voice.py)\<close>

text \<open>The manager's operations on the state of a request.\<close>

definition create_session_w ::
  "string \<Rightarrow> string \<Rightarrow> datetime \<Rightarrow> datetime \<Rightarrow> world \<Rightarrow> string \<times> world" where
  "create_session_w prompt session_id t1 t2 w =
     (case create_session prompt session_id t1 t2 (manager_sessions w) of
        (sid, reg) \<Rightarrow> (sid, w\<lparr>manager_sessions := reg\<rparr>))"

definition get_messages_w ::
  "settings \<Rightarrow> datetime \<Rightarrow> string \<Rightarrow> world \<Rightarrow> (exn + message list option) \<times> world" where
  "get_messages_w cfg now session_id w =
     (case get_messages cfg now session_id (manager_sessions w) of
        (msgs, reg) \<Rightarrow> (msgs, w\<lparr>manager_sessions := reg\<rparr>))"

definition add_message_w ::
  "settings \<Rightarrow> datetime \<Rightarrow> datetime \<Rightarrow> string \<Rightarrow> string \<Rightarrow> string \<Rightarrow> world
     \<Rightarrow> (exn + bool) \<times> world" where
  "add_message_w cfg now now' session_id r c w =
     (case add_message cfg now now' session_id r c (manager_sessions w) of
        (res, reg) \<Rightarrow> (res, w\<lparr>manager_sessions := reg\<rparr>))"

text \<open>
  The first lines of both handlers: a missing or empty session id gets a new session
  (\<open>uuid1\<close>); if the session's messages are then absent, a second one is created
  (\<open>uuid2\<close>). An exception comes with the value that the handler's variable
  \<open>session_id\<close> has when it is raised. \<open>clk i\<close> is the value of the clock at the
  \<open>i\<close>-th place where the handler's code reads it: 0 and 1 in the first
  \<open>create_session\<close>, 2 in the first \<open>get_messages\<close>, 3 and 4 in the second
  \<open>create_session\<close>, 5 in the second \<open>get_messages\<close>, 6 and 7 in the append of the
  user's message, 8 in the next \<open>get_messages\<close>, 9 and 10 in the append of the
  assistant's message, 11 in the response's timestamp.
\<close>

definition resolve_session ::
  "settings \<Rightarrow> string \<Rightarrow> string \<Rightarrow> string \<Rightarrow> (nat \<Rightarrow> datetime) \<Rightarrow> string option \<Rightarrow> world
     \<Rightarrow> (exn \<times> string + string) \<times> world" where
  "resolve_session cfg prompt uuid1 uuid2 clk session_id w =
     (let (sid1, w1) =
            (case session_id of
               None \<Rightarrow> create_session_w prompt uuid1 (clk 0) (clk 1) w
             | Some sid \<Rightarrow>
                 if sid = [] then create_session_w prompt uuid1 (clk 0) (clk 1) w
                 else (sid, w))
      in case get_messages_w cfg (clk 2) sid1 w1 of
           (Inl e, w2) \<Rightarrow> (Inl (e, sid1), w2)
         | (Inr (Some msgs), w2) \<Rightarrow> (Inr sid1, w2)
         | (Inr None, w2) \<Rightarrow>
             (let (sid2, w3) = create_session_w prompt uuid2 (clk 3) (clk 4) w2
              in case get_messages_w cfg (clk 5) sid2 w3 of
                   (Inl e, w4) \<Rightarrow> (Inl (e, sid2), w4)
                 | (Inr msgs', w4) \<Rightarrow> (Inr sid2, w4)))"

text \<open>
  \<open>POST /api/chat\<close>. \<open>chat_body\<close> is the \<open>try\<close> block. \<open>chat\<close> adds the handler:
  it logs the exception with the request's session id and raises a 500.
\<close>

record chat_request =
  request_message :: string
  request_session_id :: "string option"

record chat_response =
  chat_response_text :: string
  chat_session_id :: string
  chat_timestamp :: datetime
  chat_tokens_used :: "int option"

definition chat_body ::
  "settings \<Rightarrow> formatter \<Rightarrow> string \<Rightarrow> providers \<Rightarrow> string \<Rightarrow> string \<Rightarrow> (nat \<Rightarrow> datetime)
     \<Rightarrow> chat_request \<Rightarrow> world \<Rightarrow> (exn + chat_response) \<times> world" where
  "chat_body cfg fmt prompt prov uuid1 uuid2 clk request w =
     (case resolve_session cfg prompt uuid1 uuid2 clk (request_session_id request) w of
        (Inl (e, sid), w1) \<Rightarrow> (Inl e, w1)
      | (Inr session_id, w1) \<Rightarrow>
          (case add_message_w cfg (clk 6) (clk 7) session_id ''user''
                  (request_message request) w1 of
             (Inl e, w2) \<Rightarrow> (Inl e, w2)
           | (Inr _, w2) \<Rightarrow>
               (case get_messages_w cfg (clk 8) session_id w2 of
                  (Inl e, w3) \<Rightarrow> (Inl e, w3)
                | (Inr msgs, w3) \<Rightarrow>
                    (case chat_completion fmt prov msgs w3 of
                       (Inl e, w4) \<Rightarrow> (Inl e, w4)
                     | (Inr response, w4) \<Rightarrow>
                         (case add_message_w cfg (clk 9) (clk 10) session_id ''assistant''
                                 (completion_content response) w4 of
                            (Inl e, w5) \<Rightarrow> (Inl e, w5)
                          | (Inr _, w5) \<Rightarrow>
                              (Inr \<lparr>chat_response_text = completion_content response,
                                    chat_session_id = session_id,
                                    chat_timestamp = clk 11,
                                    chat_tokens_used =
                                      Some (completion_tokens_used response)\<rparr>,
                               w5))))))"

definition route_context :: "string \<Rightarrow> string option \<Rightarrow> (string \<rightharpoonup> pyval)" where
  "route_context endpoint session_id =
     [''endpoint'' \<mapsto> PyStr endpoint,
      ''session_id'' \<mapsto> (case session_id of None \<Rightarrow> PyNone | Some sid \<Rightarrow> PyStr sid)]"

definition chat ::
  "settings \<Rightarrow> formatter \<Rightarrow> string \<Rightarrow> providers \<Rightarrow> string \<Rightarrow> string \<Rightarrow> (nat \<Rightarrow> datetime)
     \<Rightarrow> chat_request \<Rightarrow> world \<Rightarrow> (exn + chat_response) \<times> world" where
  "chat cfg fmt prompt prov uuid1 uuid2 clk request w =
     (case chat_body cfg fmt prompt prov uuid1 uuid2 clk request w of
        (Inl e, w') \<Rightarrow>
          (Inl (log_and_raise_500 fmt (route_context ''chat'' (request_session_id request))
                  ''Error processing chat request: '' e), w')
      | (Inr r, w') \<Rightarrow> (Inr r, w'))"

text \<open>\<open>str.lower\<close> on ASCII letters and \<open>str.endswith\<close>.\<close>

definition lower :: "string \<Rightarrow> string" where
  "lower s =
     map (\<lambda>c. case map_of (zip ''ABCDEFGHIJKLMNOPQRSTUVWXYZ'' ''abcdefghijklmnopqrstuvwxyz'') c of
                None \<Rightarrow> c
              | Some d \<Rightarrow> d) s"

definition endswith :: "string \<Rightarrow> string \<Rightarrow> bool" where
  "endswith s suf = (length suf \<le> length s \<and> drop (length s - length suf) s = suf)"

text \<open>
  \<open>POST /api/voice-chat\<close>. The upload is its file name and the bytes that
  \<open>audio.read()\<close> returns. \<open>voice_chat_body\<close> is the \<open>try\<close> block; an exception
  comes with the value of the variable \<open>session_id\<close> at that point, which the handler
  logs. \<open>VoiceChatResponse\<close> has the five fields of the schema; the keyword
  \<open>audio_base64\<close> that the handler passes is not one of them and the model class drops it.
  \<open>voice_chat\<close> adds the two handlers: an \<open>HTTPException\<close> is raised again, every other
  exception is logged and becomes a 500.
\<close>

record upload_file =
  upload_filename :: "string option"
  upload_bytes :: bytes

record voice_chat_response =
  voice_transcription :: string
  voice_response_text :: string
  voice_audio_url :: "string option"
  voice_session_id :: string
  voice_timestamp :: datetime

definition voice_chat_body ::
  "settings \<Rightarrow> formatter \<Rightarrow> string \<Rightarrow> providers \<Rightarrow> (string \<Rightarrow> string) \<Rightarrow> (bytes \<Rightarrow> string)
     \<Rightarrow> string \<Rightarrow> string \<Rightarrow> (nat \<Rightarrow> datetime) \<Rightarrow> upload_file \<Rightarrow> string option \<Rightarrow> world
     \<Rightarrow> (exn \<times> string option + voice_chat_response) \<times> world" where
  "voice_chat_body cfg fmt prompt prov md5 b64encode uuid1 uuid2 clk audio session_id w =
     (let audio_bytes = upload_bytes audio
      in if int (length audio_bytes) > max_audio_file_size_bytes cfg then
           (Inl (HTTPException 413
                   (''Audio file too large. Max size: ''
                      @ str_int (max_audio_file_size_mb cfg) @ ''MB''), session_id), w)
         else case upload_filename audio of
           None \<Rightarrow>
             (Inl (AttributeError (quote @ ''NoneType'' @ quote @ '' object has no attribute ''
                                     @ quote @ ''lower'' @ quote), session_id), w)
         | Some fname \<Rightarrow>
             if \<not> list_ex (endswith (lower fname))
                      [''.wav'', ''.mp3'', ''.webm'', ''.m4a'', ''.ogg''] then
               (Inl (HTTPException 400
                       ''Unsupported audio format. Supported: WAV, MP3, WebM, M4A, OGG'',
                     session_id), w)
             else case transcribe_audio fmt prov audio_bytes fname w of
               (Inl e, w0) \<Rightarrow> (Inl (e, session_id), w0)
             | (Inr transcription, w0) \<Rightarrow>
                 (case resolve_session cfg prompt uuid1 uuid2 clk session_id w0 of
                    (Inl (e, sid), w1) \<Rightarrow> (Inl (e, Some sid), w1)
                  | (Inr sid, w1) \<Rightarrow>
                      (case add_message_w cfg (clk 6) (clk 7) sid ''user'' transcription w1 of
                         (Inl e, w2) \<Rightarrow> (Inl (e, Some sid), w2)
                       | (Inr _, w2) \<Rightarrow>
                           (case get_messages_w cfg (clk 8) sid w2 of
                              (Inl e, w3) \<Rightarrow> (Inl (e, Some sid), w3)
                            | (Inr msgs, w3) \<Rightarrow>
                                (case chat_completion fmt prov msgs w3 of
                                   (Inl e, w4) \<Rightarrow> (Inl (e, Some sid), w4)
                                 | (Inr response, w4) \<Rightarrow>
                                     (case add_message_w cfg (clk 9) (clk 10) sid ''assistant''
                                             (completion_content response) w4 of
                                        (Inl e, w5) \<Rightarrow> (Inl (e, Some sid), w5)
                                      | (Inr _, w5) \<Rightarrow>
                                          (case generate_speech_kw cfg fmt prov md5
                                                  (completion_content response) None False
                                                  [''persist''] w5 of
                                             (Inl e, w6) \<Rightarrow> (Inl (e, Some sid), w6)
                                           | (Inr (audio_id, speech), w6) \<Rightarrow>
                                               (let audio_data_uri =
                                                      ''data:audio/mpeg;base64,''
                                                        @ b64encode speech
                                                in (Inr \<lparr>voice_transcription = transcription,
                                                          voice_response_text =
                                                            completion_content response,
                                                          voice_audio_url = None,
                                                          voice_session_id = sid,
                                                          voice_timestamp = clk 11\<rparr>,
                                                    w6)))))))))"

definition voice_chat ::
  "settings \<Rightarrow> formatter \<Rightarrow> string \<Rightarrow> providers \<Rightarrow> (string \<Rightarrow> string) \<Rightarrow> (bytes \<Rightarrow> string)
     \<Rightarrow> string \<Rightarrow> string \<Rightarrow> (nat \<Rightarrow> datetime) \<Rightarrow> upload_file \<Rightarrow> string option \<Rightarrow> world
     \<Rightarrow> (exn + voice_chat_response) \<times> world" where
  "voice_chat cfg fmt prompt prov md5 b64encode uuid1 uuid2 clk audio session_id w =
     (case voice_chat_body cfg fmt prompt prov md5 b64encode uuid1 uuid2 clk audio session_id w of
        (Inl (HTTPException code detail, sid), w') \<Rightarrow> (Inl (HTTPException code detail), w')
      | (Inl (e, sid), w') \<Rightarrow>
          (Inl (log_and_raise_500 fmt (route_context ''voice_chat'' sid)
                  ''Error processing voice chat: '' e), w')
      | (Inr r, w') \<Rightarrow> (Inr r, w'))"

section \<open>Concrete inputs\<close>

text \<open>
  A clock that stands still, the clock of a sweep, stand-ins for the digest, for base64
  and for the outcome of \<open>str.format\<close> on a text with a brace, a provider whose calls all
  succeed, one whose completion times out, and the state of a fresh process.
\<close>

definition fixed_clock :: "nat \<Rightarrow> datetime" where
  "fixed_clock n = 0"

definition sweep_clock :: "string \<Rightarrow> datetime" where
  "sweep_clock session_id = 3"

definition identity_digest :: "string \<Rightarrow> string" where
  "identity_digest s = s"

definition empty_encoding :: "bytes \<Rightarrow> string" where
  "empty_encoding b = []"

definition format_fails :: formatter where
  "format_fails message extra =
     Some (ValueError (''Single '' @ quote @ ''}'' @ quote @ '' encountered in format string''))"

definition working_providers :: providers where
  "working_providers =
     \<lparr>chat_completions_create =
        (\<lambda>ms. Inr \<lparr>completion_content = ''hi there'', completion_tokens_used = 7\<rparr>),
      audio_transcriptions_create = (\<lambda>audio fname. Inr ''hello''),
      audio_speech_create = (\<lambda>voice text speed. Inr [1, 2, 3])\<rparr>"

definition failing_providers :: providers where
  "failing_providers =
     working_providers\<lparr>chat_completions_create :=
       (\<lambda>ms. Inl (OpenAIError ''APITimeoutError'' ''Request timed out.''))\<rparr>"

definition empty_world :: world where
  "empty_world = \<lparr>manager_sessions = Map.empty, temp_audio = Map.empty, provider_calls = []\<rparr>"

section \<open>Evaluation\<close>

text \<open>The defining equations, for evaluating the model on concrete inputs.\<close>

lemmas store_defs =
  create_session_def create_session_data_def get_session_def is_session_expired_def
  timedelta_seconds_def add_message_def trim_conversation_history_def index0_def
  slice_from_def get_messages_def delete_session_def default_settings_def

lemmas route_defs =
  chat_def chat_body_def resolve_session_def create_session_w_def get_messages_w_def
  add_message_w_def chat_completion_def transcribe_audio_def text_to_speech_def truthy_or_def
  generate_speech_def generate_speech_kw_def generate_audio_id_def get_audio_path_def
  get_audio_def voice_chat_def voice_chat_body_def lower_def endswith_def
  max_audio_file_size_bytes_def fixed_clock_def identity_digest_def empty_encoding_def
  working_providers_def failing_providers_def empty_world_def
  log_error_def log_and_reraise_def log_and_raise_500_def brace_free_def quote_def
  openai_context_def route_context_def

text \<open>The ways \<open>get_session\<close> can go.\<close>

lemma get_session_cases:
  "sessions sid = None \<and> get_session cfg now sid sessions = (Inr None, sessions)
   \<or> (\<exists>s e. sessions sid = Some s \<and> is_session_expired cfg now s = Inl e
         \<and> get_session cfg now sid sessions = (Inl e, sessions))
   \<or> (\<exists>s. sessions sid = Some s \<and> is_session_expired cfg now s = Inr True
         \<and> get_session cfg now sid sessions = (Inr None, sessions(sid := None)))
   \<or> (\<exists>s. sessions sid = Some s \<and> is_session_expired cfg now s = Inr False
         \<and> get_session cfg now sid sessions = (Inr (Some s), sessions))"
proof (cases "sessions sid")
  case None
  then show ?thesis by (simp add: get_session_def)
next
  case (Some s)
  show ?thesis
  proof (cases "is_session_expired cfg now s")
    case (Inl e)
    with Some show ?thesis by (simp add: get_session_def)
  next
    case (Inr expired)
    with Some show ?thesis by (cases expired) (simp_all add: get_session_def)
  qed
qed

lemma add_message_True_live:
  assumes "add_message cfg now now' sid r c sessions = (Inr True, sessions')"
  shows "\<exists>s. sessions sid = Some s \<and> is_session_expired cfg now s = Inr False
           \<and> get_session cfg now sid sessions = (Inr (Some s), sessions)"
  using assms get_session_cases [of sessions sid cfg now]
  by (auto simp: add_message_def)

section \<open>The trim policy\<close>

text \<open>
  C1. The claim: after every append the history is the system message followed by the
  last \<open>L\<close> appended messages whenever its length exceeds \<open>L + 1\<close>. With \<open>L = 0\<close> the
  slice \<open>messages[-0:]\<close> is the whole list: one append to a fresh session leaves the
  system message twice and the user's message, not the system message alone.
\<close>

theorem trim_zero_length_keeps_everything:
  "add_message (default_settings\<lparr>max_conversation_length := 0\<rparr>) 1 2 ''a'' ''user'' ''hi''
       [''a'' \<mapsto> create_session_data ''p'' 0 0]
   = (Inr True,
      [''a'' \<mapsto> \<lparr>messages = [\<lparr>role = ''system'', content = ''p''\<rparr>,
                               \<lparr>role = ''system'', content = ''p''\<rparr>,
                               \<lparr>role = ''user'', content = ''hi''\<rparr>],
                   created_at = 0, last_activity = 2, message_count = 1\<rparr>])"
  by (simp add: store_defs)

text \<open>
  For every \<open>L \<ge> 1\<close> the policy holds: an append to a live session whose history starts
  with the system message leaves the system message and the last \<open>L\<close> of the others, and so
  does every sequence of successful appends to a new session.
\<close>

lemma session_update_order:
  "s\<lparr>messages := a, last_activity := b, message_count := k\<rparr>
     = s\<lparr>last_activity := b, message_count := k, messages := a\<rparr>"
  by (cases s) simp

lemma add_message_live:
  assumes "sessions sid = Some s" and "is_session_expired cfg now s = Inr False"
    and "messages s = sys # rest" and "1 \<le> max_conversation_length cfg"
  shows "add_message cfg now now' sid r c sessions =
           (Inr True, sessions(sid \<mapsto>
              s\<lparr>last_activity := now', message_count := message_count s + 1,
                messages := sys # last_n (nat (max_conversation_length cfg))
                                      (rest @ [\<lparr>role = r, content = c\<rparr>])\<rparr>))"
proof -
  let ?L = "max_conversation_length cfg"
  let ?m = "\<lparr>role = r, content = c\<rparr>"
  let ?s' = "s\<lparr>messages := messages s @ [?m], last_activity := now',
               message_count := message_count s + 1\<rparr>"
  have get: "get_session cfg now sid sessions = (Inr (Some s), sessions)"
    using assms(1,2) by (simp add: get_session_def)
  show ?thesis
  proof (cases "int (length (messages ?s')) > ?L + 1")
    case True
    then have big: "int (length rest) + 1 > ?L" using assms(3) by simp
    have "slice_from (sys # rest @ [?m]) (- ?L)
            = drop (nat (max 0 (int (length (sys # rest @ [?m])) + - ?L))) (sys # rest @ [?m])"
      using assms(4) by (simp add: slice_from_def Let_def)
    also have "nat (max 0 (int (length (sys # rest @ [?m])) + - ?L))
                 = Suc (length rest + 1 - nat ?L)"
      using assms(4) big by (simp add: max_def)
    finally have sl: "slice_from (sys # rest @ [?m]) (- ?L) = last_n (nat ?L) (rest @ [?m])"
      by (simp add: last_n_def)
    show ?thesis
      using True get assms(3) sl
      by (simp add: add_message_def trim_conversation_history_def index0_def Let_def)
  next
    case False
    then have small: "length rest + 1 \<le> nat ?L" using assms(3) by simp
    then have "last_n (nat ?L) (rest @ [?m]) = rest @ [?m]"
      by (simp add: last_n_def)
    with False get assms(3) show ?thesis
      by (simp add: add_message_def trim_conversation_history_def Let_def session_update_order)
  qed
qed

lemma last_n_snoc:
  "0 < n \<Longrightarrow> last_n n (last_n n xs @ [x]) = last_n n (xs @ [x])"
  by (cases "length xs \<le> n") (auto simp: last_n_def Suc_diff_le)

lemma add_messages_window_gen:
  assumes "1 \<le> max_conversation_length cfg"
  shows "sessions sid = Some s \<Longrightarrow> messages s = sys # last_n (nat (max_conversation_length cfg)) done
     \<Longrightarrow> add_messages cfg sid items sessions = Some sessions'
     \<Longrightarrow> \<exists>s'. sessions' sid = Some s'
            \<and> messages s' = sys # last_n (nat (max_conversation_length cfg))
                                      (done @ map (\<lambda>(now, now', r, c). \<lparr>role = r, content = c\<rparr>) items)"
proof (induction items arbitrary: sessions s "done")
  case Nil
  then show ?case by simp
next
  case (Cons item items)
  obtain now now' r c where item: "item = (now, now', r, c)" by (cases item) auto
  let ?m = "\<lparr>role = r, content = c\<rparr>"
  let ?L = "nat (max_conversation_length cfg)"
  have pos: "0 < ?L" using assms by simp
  have live: "is_session_expired cfg now s = Inr False"
  proof -
    from Cons.prems(3) item obtain sessions1 where
      "add_message cfg now now' sid r c sessions = (Inr True, sessions1)"
      by (auto split: prod.splits sum.splits bool.splits if_splits)
    from add_message_True_live [OF this] Cons.prems(1) show ?thesis by simp
  qed
  let ?s1 = "s\<lparr>last_activity := now', message_count := message_count s + 1,
                messages := sys # last_n ?L (last_n ?L done @ [?m])\<rparr>"
  have step: "add_message cfg now now' sid r c sessions
                = (Inr True, sessions(sid \<mapsto> ?s1))"
    by (rule add_message_live
          [of sessions sid s cfg now sys "last_n ?L done" now' r c,
           OF Cons.prems(1) live Cons.prems(2) assms])
  have msgs: "messages ?s1 = sys # last_n ?L (done @ [?m])"
    using pos by (simp add: last_n_snoc)
  have rest: "add_messages cfg sid items (sessions(sid \<mapsto> ?s1)) = Some sessions'"
    using Cons.prems(3) item step by simp
  have "(sessions(sid \<mapsto> ?s1)) sid = Some ?s1" by simp
  from Cons.IH [OF this msgs rest] item show ?case by simp
qed

lemma add_messages_window:
  assumes "1 \<le> max_conversation_length cfg"
    and "sessions sid = Some (create_session_data prompt t1 t2)"
    and "add_messages cfg sid items sessions = Some sessions'"
  shows "\<exists>s'. sessions' sid = Some s'
            \<and> messages s' = \<lparr>role = ''system'', content = prompt\<rparr>
                 # last_n (nat (max_conversation_length cfg))
                     (map (\<lambda>(now, now', r, c). \<lparr>role = r, content = c\<rparr>) items)"
proof -
  have "messages (create_session_data prompt t1 t2)
          = \<lparr>role = ''system'', content = prompt\<rparr> # last_n (nat (max_conversation_length cfg)) []"
    by (simp add: create_session_data_def last_n_def)
  from add_messages_window_gen [OF assms(1) assms(2) this assms(3)] show ?thesis by simp
qed

text \<open>The scenario with \<open>L = 2\<close>: four turns leave the system message and turns 3 and 4.\<close>

lemma four_turns_keep_last_two:
  "map_option (\<lambda>reg. map_option messages (reg ''a''))
     (add_messages (default_settings\<lparr>max_conversation_length := 2\<rparr>) ''a''
        [(1, 1, ''user'', ''t1''), (2, 2, ''assistant'', ''t2''),
         (3, 3, ''user'', ''t3''), (4, 4, ''assistant'', ''t4'')]
        [''a'' \<mapsto> create_session_data ''p'' 0 0])
   = Some (Some [\<lparr>role = ''system'', content = ''p''\<rparr>,
                 \<lparr>role = ''user'', content = ''t3''\<rparr>,
                 \<lparr>role = ''assistant'', content = ''t4''\<rparr>])"
  by (simp add: store_defs)

section \<open>The pinned system message\<close>

lemma registry_ok_get_session:
  "registry_ok sessions \<Longrightarrow> registry_ok (snd (get_session cfg now sid sessions))"
  using get_session_cases [of sessions sid cfg now]
  by (auto simp: registry_ok_def split: if_splits)

lemma registry_ok_trim:
  assumes "registry_ok sessions"
  shows "\<exists>sessions'. trim_conversation_history cfg sid sessions = Inr sessions'
           \<and> registry_ok sessions'"
proof (cases "sessions sid")
  case None
  with assms show ?thesis by (simp add: trim_conversation_history_def)
next
  case (Some s)
  with assms have "session_ok s" by (simp add: registry_ok_def)
  then obtain m ms where ms: "messages s = m # ms" and sys: "role m = ''system''"
    by (auto simp: session_ok_def split: list.splits)
  show ?thesis
    using Some ms sys assms
    by (auto simp: trim_conversation_history_def index0_def Let_def registry_ok_def session_ok_def)
qed

lemma session_ok_append:
  "session_ok s \<Longrightarrow>
   session_ok (s\<lparr>messages := messages s @ [m], last_activity := t, message_count := k\<rparr>)"
  by (auto simp: session_ok_def split: list.splits)

lemma registry_ok_upd:
  "registry_ok sessions \<Longrightarrow> session_ok s \<Longrightarrow> registry_ok (sessions(sid \<mapsto> s))"
  by (simp add: registry_ok_def)

lemma registry_ok_add_message:
  assumes "registry_ok sessions"
  shows "registry_ok (snd (add_message cfg now now' sid r c sessions))
         \<and> fst (add_message cfg now now' sid r c sessions) \<noteq> Inl IndexError"
proof -
  consider (same) res where "get_session cfg now sid sessions = (res, sessions)"
      "res = Inr None \<or> (\<exists>e. res = Inl e \<and> is_session_expired cfg now (the (sessions sid)) = Inl e)"
    | (expired) "get_session cfg now sid sessions = (Inr None, sessions(sid := None))"
    | (live) s where "sessions sid = Some s"
        "get_session cfg now sid sessions = (Inr (Some s), sessions)"
    using get_session_cases [of sessions sid cfg now] by fastforce
  then show ?thesis
  proof cases
    case same
    have "e \<noteq> IndexError" if "is_session_expired cfg now s = Inl e" for s e
      using that
      by (auto simp: is_session_expired_def timedelta_seconds_def Let_def
               split: sum.splits if_splits)
    with same assms show ?thesis by (auto simp: add_message_def)
  next
    case expired
    with assms show ?thesis by (auto simp: add_message_def registry_ok_def split: if_splits)
  next
    case live
    let ?s' = "s\<lparr>messages := messages s @ [\<lparr>role = r, content = c\<rparr>],
                   last_activity := now', message_count := message_count s + 1\<rparr>"
    from assms live(1) have "session_ok s" by (simp add: registry_ok_def)
    then have "registry_ok (sessions(sid \<mapsto> ?s'))"
      using assms by (intro registry_ok_upd session_ok_append)
    from registry_ok_trim [OF this, of cfg sid]
    obtain sessions' where
      "trim_conversation_history cfg sid (sessions(sid \<mapsto> ?s')) = Inr sessions'"
      "registry_ok sessions'" by blast
    with live(2) show ?thesis by (simp add: add_message_def Let_def)
  qed
qed

lemma registry_ok_apply_op:
  assumes "registry_ok sessions"
  shows "registry_ok (apply_op cfg prompt op sessions)"
proof (cases op)
  case (Create sid t1 t2)
  have "session_ok (create_session_data prompt t1 t2)"
    by (simp add: session_ok_def create_session_data_def)
  with assms Create show ?thesis
    by (simp add: create_session_def registry_ok_upd)
next
  case (Get sid now)
  with assms show ?thesis by (simp add: registry_ok_get_session)
next
  case (GetMessages sid now)
  have "snd (get_messages cfg now sid sessions) = snd (get_session cfg now sid sessions)"
    by (simp add: get_messages_def split: prod.splits option.splits sum.splits)
  with assms GetMessages show ?thesis by (simp add: registry_ok_get_session)
next
  case (Append sid r c now now')
  with assms show ?thesis by (simp add: registry_ok_add_message)
next
  case (Trim sid)
  with registry_ok_trim [OF assms, of cfg sid] assms show ?thesis by auto
next
  case (Delete sid)
  with assms show ?thesis by (auto simp: delete_session_def registry_ok_def split: if_splits)
next
  case (Sweep now)
  with assms show ?thesis
    by (auto simp: cleanup_expired_sessions_def registry_ok_def
             split: option.splits if_splits sum.splits)
qed

lemma registry_ok_run_ops:
  "registry_ok sessions \<Longrightarrow> registry_ok (run_ops cfg prompt ops sessions)"
  unfolding run_ops_def
  by (induction ops arbitrary: sessions) (simp_all add: registry_ok_apply_op)

text \<open>
  C2. After every sequence of operations on the store (create, get, get_messages,
  append, trim, delete, sweep), starting from the empty registry and for every
  configuration, each session in the registry has a non-empty message list whose first
  element has role \<open>system\<close>.
\<close>

theorem system_message_pinned:
  assumes "run_ops cfg prompt ops Map.empty session_id = Some s"
  shows "messages s \<noteq> [] \<and> role (hd (messages s)) = ''system''"
proof -
  have "registry_ok (run_ops cfg prompt ops Map.empty)"
    by (rule registry_ok_run_ops) (simp add: registry_ok_def)
  with assms have "session_ok s"
    by (simp add: registry_ok_def)
  then show ?thesis
    by (cases "messages s") (simp_all add: session_ok_def)
qed

theorem system_message_pinned_witness:
  "run_ops default_settings ''p''
       [Create ''a'' 0 0, Append ''a'' ''user'' ''hi'' 1 2, Get ''b'' 3, Sweep sweep_clock]
       Map.empty ''a''
     = Some \<lparr>messages = [\<lparr>role = ''system'', content = ''p''\<rparr>,
                            \<lparr>role = ''user'', content = ''hi''\<rparr>],
              created_at = 0, last_activity = 2, message_count = 1\<rparr>
   \<and> messages \<lparr>messages = [\<lparr>role = ''system'', content = ''p''\<rparr>,
                            \<lparr>role = ''user'', content = ''hi''\<rparr>],
              created_at = 0, last_activity = 2, message_count = 1\<rparr> \<noteq> []
   \<and> role (hd (messages \<lparr>messages = [\<lparr>role = ''system'', content = ''p''\<rparr>,
                                      \<lparr>role = ''user'', content = ''hi''\<rparr>],
                        created_at = 0, last_activity = 2, message_count = 1\<rparr>)) = ''system''"
proof -
  have present: "run_ops default_settings ''p''
       [Create ''a'' 0 0, Append ''a'' ''user'' ''hi'' 1 2, Get ''b'' 3, Sweep sweep_clock]
       Map.empty ''a''
     = Some \<lparr>messages = [\<lparr>role = ''system'', content = ''p''\<rparr>,
                            \<lparr>role = ''user'', content = ''hi''\<rparr>],
              created_at = 0, last_activity = 2, message_count = 1\<rparr>"
    by (simp add: run_ops_def store_defs cleanup_expired_sessions_def sweep_clock_def)
  from present system_message_pinned [OF present] show ?thesis
    by (rule conjI)
qed

section \<open>Lazy expiry on read\<close>

text \<open>The seconds that \<open>timedelta\<close> accepts.\<close>

lemma timedelta_days_range:
  "\<bar>n div 86400\<bar> \<le> 999999999 \<longleftrightarrow> - 86399999913600 \<le> n \<and> n \<le> (86399999999999::int)"
proof -
  define d where "d = n div 86400"
  define r where "r = n mod 86400"
  have n: "n = 86400 * d + r" by (simp add: d_def r_def)
  have r: "0 \<le> r" "r < 86400" by (simp_all add: r_def)
  have "\<bar>d\<bar> \<le> 999999999 \<longleftrightarrow> - 86399999913600 \<le> n \<and> n \<le> 86399999999999"
    using n r by linarith
  then show ?thesis by (simp add: d_def)
qed

lemma timedelta_seconds_range:
  "timedelta_seconds n = Inr (n * 1000000)
     \<longleftrightarrow> - 86399999913600 \<le> n \<and> n \<le> 86399999999999"
  using timedelta_days_range [of n]
  unfolding timedelta_seconds_def Let_def
  by auto

text \<open>
  C6. A session whose time since \<open>last_activity\<close> exceeds the configured timeout (a
  number of seconds that \<open>timedelta\<close> accepts): \<open>get_session\<close> returns absent and
  removes exactly that entry from the registry, and a following \<open>get_session\<close> with the
  same id, at any time, returns absent again and changes nothing.
\<close>

theorem get_session_expired_evicts:
  assumes "sessions session_id = Some s"
    and "timedelta_seconds (session_timeout_seconds cfg) = Inr timeout"
    and "now - last_activity s > timeout"
  shows "get_session cfg now session_id sessions = (Inr None, sessions(session_id := None))
       \<and> get_session cfg now2 session_id (snd (get_session cfg now session_id sessions))
           = (Inr None, sessions(session_id := None))"
  using assms by (simp add: get_session_def is_session_expired_def)

theorem get_session_expired_evicts_witness:
  "fst (get_session default_settings 3600000001 ''a''
          [''a'' \<mapsto> create_session_data ''p'' 0 0, ''b'' \<mapsto> create_session_data ''p'' 5 5])
     = Inr None
   \<and> snd (get_session default_settings 3600000001 ''a''
          [''a'' \<mapsto> create_session_data ''p'' 0 0, ''b'' \<mapsto> create_session_data ''p'' 5 5])
         ''a'' = None
   \<and> fst (get_session default_settings 7 ''a''
            (snd (get_session default_settings 3600000001 ''a''
               [''a'' \<mapsto> create_session_data ''p'' 0 0,
                ''b'' \<mapsto> create_session_data ''p'' 5 5]))) = Inr None"
proof -
  let ?reg = "[''a'' \<mapsto> create_session_data ''p'' 0 0, ''b'' \<mapsto> create_session_data ''p'' 5 5]"
  have present: "?reg ''a'' = Some (create_session_data ''p'' 0 0)"
    by simp
  have timeout: "timedelta_seconds (session_timeout_seconds default_settings) = Inr 3600000000"
    by (simp add: timedelta_seconds_def default_settings_def)
  have old: "3600000001 - last_activity (create_session_data ''p'' 0 0) > 3600000000"
    by (simp add: create_session_data_def)
  note evicted = get_session_expired_evicts
      [of ?reg "''a''" "create_session_data ''p'' 0 0" default_settings 3600000000 3600000001 7,
       OF present timeout old]
  from evicted show ?thesis
    by (metis fst_conv snd_conv fun_upd_same)
qed

text \<open>
  A configured timeout outside the range of \<open>timedelta\<close>: the expiry check raises for
  every session that is present, and nothing is evicted.
\<close>

lemma get_session_timeout_out_of_range:
  assumes "sessions session_id = Some s"
    and "session_timeout_seconds cfg < - 86399999913600
         \<or> 86399999999999 < session_timeout_seconds cfg"
  shows "\<exists>m. get_session cfg now session_id sessions = (Inl (OverflowError m), sessions)"
proof -
  from assms(2) have "\<not> \<bar>session_timeout_seconds cfg div 86400\<bar> \<le> 999999999"
    using timedelta_days_range [of "session_timeout_seconds cfg"] by linarith
  with assms(1) show ?thesis
    by (auto simp: get_session_def is_session_expired_def timedelta_seconds_def Let_def)
qed

section \<open>Append to an absent or expired session\<close>

text \<open>
  An append to an expired session returns false, but the registry is not the one before:
  the expiry check has removed the entry.
\<close>

theorem add_message_expired_counterexample:
  "fst (add_message default_settings 3600000001 3600000002 ''a'' ''user'' ''hi''
          [''a'' \<mapsto> create_session_data ''p'' 0 0]) = Inr False
   \<and> snd (add_message default_settings 3600000001 3600000002 ''a'' ''user'' ''hi''
          [''a'' \<mapsto> create_session_data ''p'' 0 0])
       \<noteq> [''a'' \<mapsto> create_session_data ''p'' 0 0]"
proof (rule conjI)
  let ?one = "[''a'' \<mapsto> create_session_data ''p'' 0 0]"
  let ?after = "snd (add_message default_settings 3600000001 3600000002 ''a'' ''user'' ''hi'' ?one)"
  show "fst (add_message default_settings 3600000001 3600000002 ''a'' ''user'' ''hi'' ?one)
          = Inr False"
    by (simp add: store_defs)
  have gone: "?after ''a'' = None"
    by (simp add: store_defs)
  show "?after \<noteq> ?one"
  proof
    assume "?after = ?one"
    then have "?after ''a'' = ?one ''a''" by (rule arg_cong)
    with gone show False by simp
  qed
qed

text \<open>
  C5, amended. For a session id that is absent from the registry or whose session is
  expired (the expiry check returns true), \<open>add_message\<close> returns false, adds no message
  and creates no session. For an absent id the registry is unchanged; for an expired one
  the entry of that id is removed and every other entry is as before.
\<close>

theorem add_message_absent_or_expired:
  assumes "sessions session_id = None
           \<or> (\<exists>s. sessions session_id = Some s \<and> is_session_expired cfg now s = Inr True)"
  shows "add_message cfg now now' session_id r c sessions
           = (Inr False, sessions(session_id := None))
         \<and> (sessions session_id = None
              \<longrightarrow> snd (add_message cfg now now' session_id r c sessions) = sessions)
         \<and> (\<forall>other. other \<noteq> session_id
              \<longrightarrow> snd (add_message cfg now now' session_id r c sessions) other = sessions other)"
  using assms
  by (auto simp: add_message_def get_session_def fun_upd_idem)

theorem add_message_absent_or_expired_witness:
  "is_session_expired default_settings 3600000001 (create_session_data ''p'' 0 0) = Inr True
   \<and> add_message default_settings 3600000001 3600000002 ''a'' ''user'' ''hi''
          [''a'' \<mapsto> create_session_data ''p'' 0 0, ''b'' \<mapsto> create_session_data ''q'' 9 9]
       = (Inr False, [''a'' \<mapsto> create_session_data ''p'' 0 0,
                      ''b'' \<mapsto> create_session_data ''q'' 9 9](''a'' := None))
   \<and> snd (add_message default_settings 3600000001 3600000002 ''a'' ''user'' ''hi''
          [''a'' \<mapsto> create_session_data ''p'' 0 0, ''b'' \<mapsto> create_session_data ''q'' 9 9])
         ''b'' = Some (create_session_data ''q'' 9 9)
   \<and> add_message default_settings 1 2 ''c'' ''user'' ''hi''
          [''a'' \<mapsto> create_session_data ''p'' 0 0]
       = (Inr False, [''a'' \<mapsto> create_session_data ''p'' 0 0])"
proof -
  let ?reg = "[''a'' \<mapsto> create_session_data ''p'' 0 0, ''b'' \<mapsto> create_session_data ''q'' 9 9]"
  let ?one = "[''a'' \<mapsto> create_session_data ''p'' 0 0]"
  have old: "is_session_expired default_settings 3600000001 (create_session_data ''p'' 0 0)
               = Inr True"
    by (simp add: store_defs)
  then have hyp: "?reg ''a'' = None
      \<or> (\<exists>s. ?reg ''a'' = Some s \<and> is_session_expired default_settings 3600000001 s = Inr True)"
    by simp
  have absent: "?one ''c'' = None
      \<or> (\<exists>s. ?one ''c'' = Some s \<and> is_session_expired default_settings 1 s = Inr True)"
    by simp
  have same: "?one(''c'' := None) = ?one"
    by (rule ext) simp
  note expired_case = add_message_absent_or_expired
    [of ?reg "''a''" default_settings 3600000001 3600000002 "''user''" "''hi''", OF hyp]
  note absent_case = add_message_absent_or_expired
    [of ?one "''c''" default_settings 1 2 "''user''" "''hi''", OF absent]
  have b: "snd (add_message default_settings 3600000001 3600000002 ''a'' ''user'' ''hi'' ?reg)
         ''b'' = ?reg ''b''"
  proof -
    from expired_case have "\<forall>other. other \<noteq> ''a'' \<longrightarrow>
        snd (add_message default_settings 3600000001 3600000002 ''a'' ''user'' ''hi'' ?reg) other
          = ?reg other"
      by (rule conjunct2 [THEN conjunct2])
    then have "''b'' \<noteq> ''a'' \<longrightarrow>
        snd (add_message default_settings 3600000001 3600000002 ''a'' ''user'' ''hi'' ?reg) ''b''
          = ?reg ''b''"
      by (rule spec)
    moreover have "''b'' \<noteq> ''a''" by simp
    ultimately show ?thesis by (rule mp)
  qed
  have b': "?reg ''b'' = Some (create_session_data ''q'' 9 9)" by simp
  have c1: "add_message default_settings 3600000001 3600000002 ''a'' ''user'' ''hi'' ?reg
              = (Inr False, ?reg(''a'' := None))"
    using expired_case by (rule conjunct1)
  have "add_message default_settings 1 2 ''c'' ''user'' ''hi'' ?one
          = (Inr False, ?one(''c'' := None))"
    using absent_case by (rule conjunct1)
  then have c3: "add_message default_settings 1 2 ''c'' ''user'' ''hi'' ?one = (Inr False, ?one)"
    by (simp only: same)
  from b b' have c2: "snd (add_message default_settings 3600000001 3600000002 ''a'' ''user''
      ''hi'' ?reg) ''b'' = Some (create_session_data ''q'' 9 9)"
    by (rule trans)
  from old c1 c2 c3 show ?thesis
    by (intro conjI)
qed

text \<open>
  With a configured timeout outside the range of \<open>timedelta\<close>, an append to a session
  that is present raises and leaves the registry as it is.
\<close>

lemma add_message_timeout_out_of_range:
  assumes "sessions session_id = Some s"
    and "session_timeout_seconds cfg < - 86399999913600
         \<or> 86399999999999 < session_timeout_seconds cfg"
  shows "\<exists>m. add_message cfg now now' session_id r c sessions
           = (Inl (OverflowError m), sessions)"
  using get_session_timeout_out_of_range [of sessions session_id s cfg now] assms
  by (auto simp: add_message_def)

section \<open>A chat turn whose completion fails\<close>



lemma brace_free_append [simp]:
  "brace_free (a @ b) \<longleftrightarrow> brace_free a \<and> brace_free b"
  by (auto simp: brace_free_def)




text \<open>
  An error text with a brace: the logging inside \<open>chat_completion\<close> raises, and the
  handler of the route, whose own logging raises on the text of that exception, passes on
  the logger's exception and not a 500 of its own.
\<close>

lemma chat_completion_failure_brace_text:
  "fst (chat default_settings format_fails ''p''
          (working_providers\<lparr>chat_completions_create :=
             (\<lambda>ms. Inl (OpenAIError ''BadRequestError'' ''unexpected token } in body''))\<rparr>)
          ''u1'' ''u2'' fixed_clock
          \<lparr>request_message = ''hello'', request_session_id = Some ''s1''\<rparr>
          (empty_world\<lparr>manager_sessions := [''s1'' \<mapsto> create_session_data ''p'' 0 0]\<rparr>))
     = Inl (ValueError (''Single '' @ quote @ ''}'' @ quote @ '' encountered in format string''))"
  by (simp add: route_defs store_defs format_fails_def)

section \<open>Speech without a cache entry\<close>

text \<open>
  C4. The call of the audio cache with \<open>use_cache=false, persist=false\<close>, as the
  voice route makes it, creates no artifact: for every text, voice and state it leaves the
  state as it is (it raises \<open>TypeError\<close> for the keyword \<open>persist\<close> before the body
  runs), so that the lookup under the key of the text and the voice returns what it
  returned before, and absent when no artifact was stored before the call.
\<close>

theorem generate_speech_persist_false_creates_nothing:
  "generate_speech_kw cfg fmt prov md5 text voice False [''persist''] w
     = (Inl (TypeError (''TTSService.generate_speech() got an unexpected keyword argument ''
                          @ quote @ ''persist'' @ quote)), w)
   \<and> (get_audio (generate_audio_id md5 text (truthy_or voice (openai_tts_voice cfg))) w = None
        \<longrightarrow> get_audio (generate_audio_id md5 text (truthy_or voice (openai_tts_voice cfg)))
              (snd (generate_speech_kw cfg fmt prov md5 text voice False [''persist''] w))
            = None)"
  by (simp add: generate_speech_kw_def)

theorem generate_speech_persist_false_creates_nothing_witness:
  "get_audio (generate_audio_id identity_digest ''hello''
                (truthy_or None (openai_tts_voice default_settings))) empty_world = None
   \<and> get_audio (generate_audio_id identity_digest ''hello''
                  (truthy_or None (openai_tts_voice default_settings)))
        (snd (generate_speech_kw default_settings format_fails working_providers
                identity_digest ''hello'' None False [''persist''] empty_world))
      = None"
proof -
  have before: "get_audio (generate_audio_id identity_digest ''hello''
                  (truthy_or None (openai_tts_voice default_settings))) empty_world = None"
    by (simp add: get_audio_def empty_world_def)
  from generate_speech_persist_false_creates_nothing
         [of default_settings format_fails working_providers identity_digest "''hello''" None
             empty_world]
       before
  show ?thesis by blast
qed

text \<open>
  The voice route never changes the audio directory: the only call it makes to the cache
  is the one above.
\<close>

lemma create_session_w_temp_audio:
  "create_session_w prompt sid t1 t2 w = (r, w') \<Longrightarrow> temp_audio w' = temp_audio w"
  by (auto simp: create_session_w_def split: prod.splits)

lemma get_messages_w_temp_audio:
  "get_messages_w cfg now sid w = (r, w') \<Longrightarrow> temp_audio w' = temp_audio w"
  by (auto simp: get_messages_w_def split: prod.splits)

lemma add_message_w_temp_audio:
  "add_message_w cfg now now' sid role_name text w = (r, w') \<Longrightarrow> temp_audio w' = temp_audio w"
  by (auto simp: add_message_w_def split: prod.splits)

lemma resolve_session_temp_audio:
  assumes "resolve_session cfg prompt uuid1 uuid2 clk session_id w = (r, w')"
  shows "temp_audio w' = temp_audio w"
proof -
  obtain sid1 w1 where first:
    "(case session_id of
        None \<Rightarrow> create_session_w prompt uuid1 (clk 0) (clk 1) w
      | Some sid \<Rightarrow>
          if sid = [] then create_session_w prompt uuid1 (clk 0) (clk 1) w else (sid, w))
       = (sid1, w1)"
    by (cases "(case session_id of
        None \<Rightarrow> create_session_w prompt uuid1 (clk 0) (clk 1) w
      | Some sid \<Rightarrow>
          if sid = [] then create_session_w prompt uuid1 (clk 0) (clk 1) w else (sid, w))")
  then have w1: "temp_audio w1 = temp_audio w"
    by (auto split: option.splits if_splits dest: create_session_w_temp_audio)
  obtain r2 w2 where second: "get_messages_w cfg (clk 2) sid1 w1 = (r2, w2)"
    by (cases "get_messages_w cfg (clk 2) sid1 w1")
  then have w2: "temp_audio w2 = temp_audio w"
    using w1 by (auto dest: get_messages_w_temp_audio)
  obtain sid2 w3 where third: "create_session_w prompt uuid2 (clk 3) (clk 4) w2 = (sid2, w3)"
    by (cases "create_session_w prompt uuid2 (clk 3) (clk 4) w2")
  then have w3: "temp_audio w3 = temp_audio w"
    using w2 by (auto dest: create_session_w_temp_audio)
  obtain r4 w4 where fourth: "get_messages_w cfg (clk 5) sid2 w3 = (r4, w4)"
    by (cases "get_messages_w cfg (clk 5) sid2 w3")
  then have w4: "temp_audio w4 = temp_audio w"
    using w3 by (auto dest: get_messages_w_temp_audio)
  from assms first second third fourth w2 w4 show ?thesis
    by (auto simp: resolve_session_def split: sum.splits option.splits)
qed

lemma voice_chat_body_temp_audio:
  "temp_audio (snd (voice_chat_body cfg fmt prompt prov md5 b64encode uuid1 uuid2 clk audio
      session_id w)) = temp_audio w"
  by (auto simp: voice_chat_body_def generate_speech_kw_def Let_def transcribe_audio_def
                 chat_completion_def
           split: prod.splits sum.splits option.splits
           dest!: resolve_session_temp_audio add_message_w_temp_audio get_messages_w_temp_audio)

lemma voice_chat_temp_audio:
  "temp_audio (snd (voice_chat cfg fmt prompt prov md5 b64encode uuid1 uuid2 clk audio
      session_id w)) = temp_audio w"
  using voice_chat_body_temp_audio
          [of cfg fmt prompt prov md5 b64encode uuid1 uuid2 clk audio session_id w]
  by (auto simp: voice_chat_def split: prod.splits sum.splits exn.splits)

text \<open>
  Without the keyword, a call with \<open>use_cache=false\<close> synthesises and writes the file:
  \<open>generate_speech\<close> has no way to return audio and store nothing.
\<close>

lemma generate_speech_writes_after_synthesis:
  "fst (generate_speech default_settings fmt working_providers md5 ''hello'' None False
          empty_world)
     = Inr (generate_audio_id md5 ''hello'' ''alloy'', [1, 2, 3])
   \<and> get_audio (generate_audio_id md5 ''hello'' ''alloy'')
        (snd (generate_speech default_settings fmt working_providers md5 ''hello'' None False
                empty_world))
     = Some [1, 2, 3]"
  by (simp add: route_defs store_defs Let_def)

section \<open>The key of the audio cache\<close>

text \<open>
  C7. The identifier that \<open>generate_speech\<close> returns is the digest of the text and the
  voice in effect, whatever the provider, the state and the cache flag: two requests with
  the same text and voice get the same identifier. No speed enters it (the gateway's speed
  is not a parameter of \<open>generate_speech\<close>), so the audio of the first request is stored
  under that identifier and a later cached request with the same text and voice is served
  from this entry, whatever the provider would synthesise then.
\<close>

theorem audio_id_from_text_and_voice_only:
  assumes "generate_speech cfg fmt prov1 md5 text voice use_cache1 w1 = (Inr (id1, b1), w1')"
    and "generate_speech cfg fmt prov2 md5 text voice use_cache2 w2 = (Inr (id2, b2), w2')"
  shows "id1 = generate_audio_id md5 text (truthy_or voice (openai_tts_voice cfg))
         \<and> id2 = id1
         \<and> get_audio id1 w1' = Some b1
         \<and> (use_cache2 \<and> w2 = w1' \<longrightarrow> b2 = b1 \<and> w2' = w1')"
  using assms
  by (auto simp: generate_speech_def get_audio_def Let_def text_to_speech_def
           split: option.splits sum.splits if_splits prod.splits)

theorem audio_id_from_text_and_voice_only_witness:
  "generate_speech default_settings format_fails working_providers identity_digest ''hello''
       None False empty_world
     = (Inr (''hello:alloy'', [1, 2, 3]),
        \<lparr>manager_sessions = Map.empty,
         temp_audio = [''temp_audio/hello:alloy.mp3'' \<mapsto> [1, 2, 3]],
         provider_calls = [SpeechCall ''alloy'' ''hello'' (5 / 4)]\<rparr>)
   \<and> generate_speech default_settings format_fails
       (working_providers\<lparr>audio_speech_create := (\<lambda>voice text speed. Inr [9])\<rparr>)
       identity_digest ''hello'' None True
       \<lparr>manager_sessions = Map.empty,
        temp_audio = [''temp_audio/hello:alloy.mp3'' \<mapsto> [1, 2, 3]],
        provider_calls = [SpeechCall ''alloy'' ''hello'' (5 / 4)]\<rparr>
     = (Inr (''hello:alloy'', [1, 2, 3]),
        \<lparr>manager_sessions = Map.empty,
         temp_audio = [''temp_audio/hello:alloy.mp3'' \<mapsto> [1, 2, 3]],
         provider_calls = [SpeechCall ''alloy'' ''hello'' (5 / 4)]\<rparr>)
   \<and> ''hello:alloy''
       = generate_audio_id identity_digest ''hello''
           (truthy_or None (openai_tts_voice default_settings))
   \<and> get_audio ''hello:alloy''
        \<lparr>manager_sessions = Map.empty,
         temp_audio = [''temp_audio/hello:alloy.mp3'' \<mapsto> [1, 2, 3]],
         provider_calls = [SpeechCall ''alloy'' ''hello'' (5 / 4)]\<rparr>
       = Some [1, 2, 3]"
proof -
  let ?w1 = "\<lparr>manager_sessions = Map.empty,
         temp_audio = [''temp_audio/hello:alloy.mp3'' \<mapsto> [1, 2, 3]],
         provider_calls = [SpeechCall ''alloy'' ''hello'' (5 / 4)]\<rparr>"
  let ?other = "working_providers\<lparr>audio_speech_create := (\<lambda>voice text speed. Inr [9])\<rparr>"
  have first: "generate_speech default_settings format_fails working_providers identity_digest
      ''hello'' None False empty_world = (Inr (''hello:alloy'', [1, 2, 3]), ?w1)"
    by (simp add: route_defs store_defs Let_def)
  have second: "generate_speech default_settings format_fails ?other identity_digest ''hello''
      None True ?w1 = (Inr (''hello:alloy'', [1, 2, 3]), ?w1)"
    by (simp add: route_defs store_defs Let_def)
  note t = audio_id_from_text_and_voice_only
    [where cfg = default_settings and fmt = format_fails and ?prov1.0 = working_providers
       and ?md5.0 = identity_digest
       and ?text = "''hello''" and voice = None and ?use_cache1.0 = False and ?w1.0 = empty_world
       and ?id1.0 = "''hello:alloy''" and ?b1.0 = "[1, 2, 3]" and ?w1' = ?w1
       and ?prov2.0 = ?other and ?use_cache2.0 = True and ?w2.0 = ?w1
       and ?id2.0 = "''hello:alloy''" and ?b2.0 = "[1, 2, 3]" and ?w2' = ?w1,
     OF first second]
  from t have "''hello:alloy''
       = generate_audio_id identity_digest ''hello''
           (truthy_or None (openai_tts_voice default_settings))"
    by (rule conjunct1)
  moreover from t have "get_audio ''hello:alloy'' ?w1 = Some [1, 2, 3]"
    by (rule conjunct2 [THEN conjunct2, THEN conjunct1])
  ultimately show ?thesis
    using first second by (intro conjI)
qed

section \<open>Oversized uploads\<close>

text \<open>
  C8. A voice-chat request whose file is longer than the configured ceiling is answered
  with 413 and the state is untouched: no transcription, completion or synthesis call is
  recorded, and no session is created or changed.
\<close>

theorem voice_chat_oversize_rejected:
  assumes "int (length (upload_bytes audio)) > max_audio_file_size_bytes cfg"
  shows "voice_chat cfg fmt prompt prov md5 b64encode uuid1 uuid2 clk audio session_id w
           = (Inl (HTTPException 413
                    (''Audio file too large. Max size: '' @ str_int (max_audio_file_size_mb cfg)
                       @ ''MB'')), w)"
  using assms by (simp add: voice_chat_def voice_chat_body_def Let_def)

theorem voice_chat_oversize_rejected_witness:
  "int (length (upload_bytes \<lparr>upload_filename = Some ''a.wav'',
                              upload_bytes = replicate 26214401 0\<rparr>))
     = max_audio_file_size_bytes default_settings + 1
   \<and> fst (voice_chat default_settings format_fails ''p'' working_providers identity_digest
        empty_encoding ''u1'' ''u2'' fixed_clock
        \<lparr>upload_filename = Some ''a.wav'', upload_bytes = replicate 26214401 0\<rparr> None empty_world)
      = Inl (HTTPException 413 (''Audio file too large. Max size: '' @ str_int 25 @ ''MB''))
   \<and> provider_calls (snd (voice_chat default_settings format_fails ''p'' working_providers
        identity_digest empty_encoding ''u1'' ''u2'' fixed_clock
        \<lparr>upload_filename = Some ''a.wav'', upload_bytes = replicate 26214401 0\<rparr> None empty_world))
      = provider_calls empty_world"
proof -
  let ?audio = "\<lparr>upload_filename = Some ''a.wav'', upload_bytes = replicate 26214401 0\<rparr>"
  have size: "int (length (upload_bytes ?audio)) = max_audio_file_size_bytes default_settings + 1"
    by (simp add: max_audio_file_size_bytes_def default_settings_def)
  then have over: "int (length (upload_bytes ?audio)) > max_audio_file_size_bytes default_settings"
    by linarith
  have mb: "max_audio_file_size_mb default_settings = 25"
    by (simp add: default_settings_def)
  show ?thesis
    using size voice_chat_oversize_rejected [OF over, of format_fails "''p''" working_providers
        identity_digest empty_encoding "''u1''" "''u2''" fixed_clock None empty_world]
    by (simp only: mb fst_conv snd_conv simp_thms)
qed

section \<open>The answer of a voice-chat request\<close>

text \<open>
  C10. The claim: a voice-chat request that succeeds returns the transcription, the
  answer, the session id, a timestamp and the audio as a data URI. A well-formed request
  (a one-byte file \<open>a.WAV\<close>, no session id, a provider whose calls all succeed) is
  transcribed and answered, both messages are appended, and then the call of
  \<open>generate_speech\<close> with the keyword \<open>persist\<close> raises: the request ends in a 500 and
  no speech is synthesised.
\<close>

theorem voice_chat_valid_request_fails:
  "voice_chat default_settings fmt ''p'' working_providers identity_digest empty_encoding
       ''u1'' ''u2'' fixed_clock \<lparr>upload_filename = Some ''a.WAV'', upload_bytes = [0]\<rparr> None
       empty_world
   = (Inl (HTTPException 500
        (''Error processing voice chat: TTSService.generate_speech() got an unexpected ''
           @ ''keyword argument '' @ quote @ ''persist'' @ quote)),
      \<lparr>manager_sessions =
         [''u1'' \<mapsto> \<lparr>messages = [\<lparr>role = ''system'', content = ''p''\<rparr>,
                                   \<lparr>role = ''user'', content = ''hello''\<rparr>,
                                   \<lparr>role = ''assistant'', content = ''hi there''\<rparr>],
                       created_at = 0, last_activity = 0, message_count = 2\<rparr>],
       temp_audio = Map.empty,
       provider_calls =
         [TranscriptionCall [0] ''a.WAV'',
          ChatCompletionCall [\<lparr>role = ''system'', content = ''p''\<rparr>,
                              \<lparr>role = ''user'', content = ''hello''\<rparr>]]\<rparr>)"
  by (simp add: route_defs store_defs)

text \<open>No request gets further: \<open>voice_chat\<close> never returns a response.\<close>

lemma voice_chat_body_fails:
  "isl (fst (voice_chat_body cfg fmt prompt prov md5 b64encode uuid1 uuid2 clk audio session_id w))"
  by (simp add: voice_chat_body_def generate_speech_kw_def Let_def
           split: prod.splits sum.splits option.splits)

theorem voice_chat_never_succeeds:
  "isl (fst (voice_chat cfg fmt prompt prov md5 b64encode uuid1 uuid2 clk audio session_id w))"
  using voice_chat_body_fails
          [of cfg fmt prompt prov md5 b64encode uuid1 uuid2 clk audio session_id w]
  by (auto simp: voice_chat_def split: prod.splits sum.splits exn.splits)

end
